theory Spec2Isabelle
  imports Main "HOL-Library.Sublist" "HOL-Library.Char_ord" "HOL-Library.List_Lexorder"
    "HOL-Library.Multiset" "HOL-Library.Word"
begin

section \<open>Template functions used by the charts\<close>

text \<open>
  The charts under \<open>helm_charts/backend\<close> and \<open>helm_charts/frontend\<close> are Go templates
  over a values document. The template functions they call are modelled on strings
  (byte lists). A value is "set" for a template \<open>if\<close> when it is present and non-empty.
\<close>

definition trunc :: "nat \<Rightarrow> string \<Rightarrow> string" where
  \<comment> \<open>\<open>trunc 63\<close>: keep the first 63 bytes.\<close>
  "trunc n s = take n s"

definition trimSuffix :: "string \<Rightarrow> string \<Rightarrow> string" where
  \<comment> \<open>\<open>trimSuffix "-"\<close>: remove one trailing occurrence of the suffix, if there is one.\<close>
  "trimSuffix suf s = (if suffix suf s then take (length s - length suf) s else s)"

fun contains :: "string \<Rightarrow> string \<Rightarrow> bool" where
  \<comment> \<open>\<open>contains $name .Release.Name\<close>: the first argument occurs in the second.\<close>
  "contains sub [] = (sub = [])"
| "contains sub (c # cs) = (prefix sub (c # cs) \<or> contains sub cs)"

definition default_str :: "string \<Rightarrow> string \<Rightarrow> string" where
  \<comment> \<open>\<open>default d v\<close>: \<open>v\<close> unless it is empty.\<close>
  "default_str d v = (if v = [] then d else v)"

definition digit_char :: "nat \<Rightarrow> char" where
  "digit_char n = ''0123456789'' ! (n mod 10)"

function string_of_nat :: "nat \<Rightarrow> string" where
  "string_of_nat n =
     (if n < 10 then [digit_char n] else string_of_nat (n div 10) @ [digit_char (n mod 10)])"
  by pat_completeness auto
termination
  by (relation "measure id") auto

declare string_of_nat.simps [simp del]

definition string_of_int :: "int \<Rightarrow> string" where
  \<comment> \<open>The verb \<open>%d\<close> of \<open>printf\<close>.\<close>
  "string_of_int i =
     (if i < 0 then CHR ''-'' # string_of_nat (nat (- i)) else string_of_nat (nat i))"

text \<open>
  Reading a decimal numeral back: an optional minus sign and digits, with no leading zero
  and no \<open>-0\<close>, so that every integer has one numeral. It is what \<open>%d\<close> is measured
  against.
\<close>

definition digit_value :: "char \<Rightarrow> nat option" where
  "digit_value c = (if CHR ''0'' \<le> c \<and> c \<le> CHR ''9'' then Some (of_char c - 48) else None)"

fun nat_of_digits :: "nat \<Rightarrow> string \<Rightarrow> nat option" where
  "nat_of_digits acc [] = Some acc"
| "nat_of_digits acc (c # cs) =
     (case digit_value c of None \<Rightarrow> None | Some d \<Rightarrow> nat_of_digits (10 * acc + d) cs)"

definition nat_of_decimal :: "string \<Rightarrow> nat option" where
  "nat_of_decimal s =
     (case s of
        [] \<Rightarrow> None
      | c # cs \<Rightarrow> if c = CHR ''0'' \<and> cs \<noteq> [] then None else nat_of_digits 0 s)"

definition int_of_decimal :: "string \<Rightarrow> int option" where
  "int_of_decimal s =
     (case s of
        [] \<Rightarrow> None
      | c # cs \<Rightarrow>
          if c = CHR ''-''
          then (case nat_of_decimal cs of
                  None \<Rightarrow> None
                | Some n \<Rightarrow> if n = 0 then None else Some (- int n))
          else map_option int (nat_of_decimal s))"

subsection \<open>\<open>b64enc\<close>\<close>

definition b64_alphabet :: string where
  "b64_alphabet = ''ABCDEFGHIJKLMNOPQRSTUVWXYZabcdefghijklmnopqrstuvwxyz0123456789+/''"

definition b64_char :: "nat \<Rightarrow> char" where
  "b64_char n = b64_alphabet ! (n mod 64)"

fun b64enc_bytes :: "nat list \<Rightarrow> string" where
  "b64enc_bytes [] = []"
| "b64enc_bytes [a] =
     [b64_char (a div 4), b64_char ((a mod 4) * 16), CHR ''='', CHR ''='']"
| "b64enc_bytes [a, b] =
     [b64_char (a div 4), b64_char ((a mod 4) * 16 + b div 16),
      b64_char ((b mod 16) * 4), CHR ''='']"
| "b64enc_bytes (a # b # c # rest) =
     [b64_char (a div 4), b64_char ((a mod 4) * 16 + b div 16),
      b64_char ((b mod 16) * 4 + c div 64), b64_char (c mod 64)] @ b64enc_bytes rest"

definition b64enc :: "string \<Rightarrow> string" where
  \<comment> \<open>Standard alphabet, with padding.\<close>
  "b64enc s = b64enc_bytes (map of_char s)"

fun index_of :: "'a \<Rightarrow> 'a list \<Rightarrow> nat option" where
  "index_of x [] = None"
| "index_of x (y # ys) = (if x = y then Some 0 else map_option Suc (index_of x ys))"

definition b64_index :: "char \<Rightarrow> nat option" where
  "b64_index c = index_of c b64_alphabet"

fun b64dec_bytes :: "string \<Rightarrow> nat list option" where
  "b64dec_bytes [] = Some []"
| "b64dec_bytes (c1 # c2 # c3 # c4 # rest) =
     (case (b64_index c1, b64_index c2) of
        (Some s1, Some s2) \<Rightarrow>
          if c3 = CHR ''='' \<and> c4 = CHR ''='' \<and> rest = [] then Some [s1 * 4 + s2 div 16]
          else (case b64_index c3 of
                  None \<Rightarrow> None
                | Some s3 \<Rightarrow>
                    if c4 = CHR ''='' \<and> rest = []
                    then Some [s1 * 4 + s2 div 16, (s2 mod 16) * 16 + s3 div 4]
                    else (case b64_index c4 of
                            None \<Rightarrow> None
                          | Some s4 \<Rightarrow>
                              map_option
                                (\<lambda>bs. (s1 * 4 + s2 div 16) # ((s2 mod 16) * 16 + s3 div 4)
                                        # ((s3 mod 4) * 64 + s4) # bs)
                                (b64dec_bytes rest)))
      | _ \<Rightarrow> None)"
| "b64dec_bytes _ = None"

definition b64dec :: "string \<Rightarrow> string option" where
  \<comment> \<open>The inverse direction, what \<open>base64 -d\<close> does to a field of the Secret.\<close>
  "b64dec s = map_option (map char_of) (b64dec_bytes s)"

section \<open>Values documents\<close>

text \<open>
  \<open>values.yaml\<close> of the backend chart (HELM-CHART-WALKTHROUGH.md, step 2) and of the
  frontend chart (FRONTEND-DEPLOYMENT-PLAN.md, task 2). \<open>env\<close> is a YAML map; it is kept
  as a list of its entries. \<open>nameOverride\<close> and \<open>fullnameOverride\<close> default to the
  empty string, \<open>backend.customUrl\<close> is absent by default.
\<close>

record postgres_auth =
  auth_database :: string
  auth_username :: string
  auth_password :: string

record postgres_values =
  pg_enabled :: bool
  pg_image_repository :: string
  pg_image_tag :: string
  pg_auth :: postgres_auth
  pg_persistence_size :: string

record backend_values =
  b_nameOverride :: string
  b_fullnameOverride :: string
  b_replicaCount :: int
  b_image_repository :: string
  b_image_tag :: string
  b_image_pullPolicy :: string
  b_service_type :: string
  b_service_port :: int
  b_env :: "(string \<times> string) list"
  b_postgres :: postgres_values

record 'p backend_ref =
  ref_releaseName :: string
  ref_port :: 'p  \<comment> \<open>whatever the document holds under \<open>backend.port\<close>\<close>
  ref_customUrl :: "string option"

record 'p frontend_values =
  f_nameOverride :: string
  f_fullnameOverride :: string
  f_replicaCount :: int
  f_autoscaling_enabled :: bool
  f_image_repository :: string
  f_image_tag :: string
  f_image_pullPolicy :: string
  f_service_type :: string
  f_service_port :: int
  f_env :: "(string \<times> string) list"
  f_backend :: "'p backend_ref"

record chart =
  chart_name :: string
  chart_version :: string
  chart_appVersion :: string

definition backend_chart :: chart where
  "backend_chart = \<lparr>chart_name = ''backend'', chart_version = ''0.1.0'', chart_appVersion = ''0.1.0''\<rparr>"

definition frontend_chart :: chart where
  "frontend_chart = \<lparr>chart_name = ''frontend'', chart_version = ''0.1.0'', chart_appVersion = ''0.1.0''\<rparr>"

section \<open>Rendered resources\<close>

datatype env_source =
    Value string
  | SecretKeyRef string string  \<comment> \<open>\<open>valueFrom.secretKeyRef\<close>: secret name, key\<close>

type_synonym env_var = "string \<times> env_source"

datatype shell_cmd = NcZ string nat | Echo string | Sleep nat

datatype shell_script = Until shell_cmd "shell_cmd list"
  \<comment> \<open>\<open>until c; do body; done\<close>\<close>

record init_container =
  ic_name :: string
  ic_image :: string
  ic_script :: shell_script

record container =
  c_name :: string
  c_image :: string
  c_imagePullPolicy :: "string option"
  c_containerPort :: int
  c_env :: "env_var list"

record deployment =
  d_name :: string
  d_replicas :: "int option"
  d_initContainers :: "init_container list"
  d_container :: container

record service =
  s_name :: string
  s_type :: string
  s_port :: int
  s_headless :: bool

record secret =
  sec_name :: string
  sec_data :: "(string \<times> string) list"

record statefulset =
  ss_name :: string
  ss_serviceName :: string
  ss_replicas :: int
  ss_container :: container
  ss_probe_command :: "string list"
  ss_claim_name :: string
  ss_claim_storage :: string

datatype manifest =
    Deployment deployment
  | Service service
  | Secret secret
  | StatefulSet statefulset

section \<open>Named templates (\<open>_helpers.tpl\<close>)\<close>

text \<open>
  FRONTEND-DEPLOYMENT-PLAN.md, task 3, lists the frontend's \<open>_helpers.tpl\<close> in full and
  says it is the backend's with the chart name changed; the chart is therefore an argument.
  The names the documents show for a rendered backend (Deployment and Service
  \<open>my-backend\<close> for the release \<open>my-backend\<close>) are the ones this helper gives.
  HELM-CHART-WALKTHROUGH.md prints a shorter \<open>backend.fullname\<close>; it is kept beside it.
\<close>

definition chart_fullname :: "chart \<Rightarrow> string \<Rightarrow> string \<Rightarrow> string \<Rightarrow> string" where
  \<comment> \<open>\<open>frontend.fullname\<close>; arguments: chart, \<open>nameOverride\<close>, \<open>fullnameOverride\<close>, release name.\<close>
  "chart_fullname ch nameOverride fullnameOverride releaseName =
     (if fullnameOverride \<noteq> [] then trimSuffix ''-'' (trunc 63 fullnameOverride)
      else
        let name = default_str (chart_name ch) nameOverride in
        if contains name releaseName then trimSuffix ''-'' (trunc 63 releaseName)
        else trimSuffix ''-'' (trunc 63 (releaseName @ ''-'' @ name)))"

definition backend_fullname_walkthrough :: "string \<Rightarrow> string \<Rightarrow> string" where
  \<comment> \<open>\<open>backend.fullname\<close> as HELM-CHART-WALKTHROUGH.md, step 3, prints it (no \<open>trunc\<close>);
      arguments: \<open>fullnameOverride\<close>, release name.\<close>
  "backend_fullname_walkthrough fullnameOverride releaseName =
     (if fullnameOverride \<noteq> [] then fullnameOverride
      else releaseName @ ''-'' @ chart_name backend_chart)"

definition backend_fullname :: "string \<Rightarrow> backend_values \<Rightarrow> string" where
  "backend_fullname rel v = chart_fullname backend_chart (b_nameOverride v) (b_fullnameOverride v) rel"

definition frontend_fullname :: "string \<Rightarrow> 'p frontend_values \<Rightarrow> string" where
  "frontend_fullname rel v = chart_fullname frontend_chart (f_nameOverride v) (f_fullnameOverride v) rel"

definition is_set :: "string option \<Rightarrow> bool" where
  \<comment> \<open>The test of \<open>if .Values.backend.customUrl\<close>: present and not empty.\<close>
  "is_set x = (case x of None \<Rightarrow> False | Some s \<Rightarrow> s \<noteq> [])"

definition frontend_backendUrl :: "('p \<Rightarrow> 64 word) \<Rightarrow> 'p frontend_values \<Rightarrow> string" where
  \<comment> \<open>\<open>frontend.backendUrl\<close>. The coercion \<open>int\<close> is a function of the template library,
      not of this repository: it is the argument \<open>sprig_int\<close>. What it returns is a Go
      \<open>int\<close>, 64 bits wide and signed, which \<open>%d\<close> prints in decimal.\<close>
  "frontend_backendUrl sprig_int v =
     (case ref_customUrl (f_backend v) of
        Some u \<Rightarrow>
          if u \<noteq> [] then u
          else ''http://'' @ ref_releaseName (f_backend v) @ '':''
                 @ string_of_int (sint (sprig_int (ref_port (f_backend v))))
      | None \<Rightarrow>
          ''http://'' @ ref_releaseName (f_backend v) @ '':''
            @ string_of_int (sint (sprig_int (ref_port (f_backend v)))))"

section \<open>Derived names of the database resources\<close>

definition postgres_service_name :: "string \<Rightarrow> string" where
  \<comment> \<open>\<open>{{ .Release.Name }}-postgres\<close>: Service and StatefulSet.\<close>
  "postgres_service_name rel = rel @ ''-postgres''"

definition postgres_secret_name :: "string \<Rightarrow> string" where
  \<comment> \<open>\<open>{{ .Release.Name }}-postgres-secret\<close>\<close>
  "postgres_secret_name rel = rel @ ''-postgres-secret''"

definition postgres_claim_name :: string where
  \<comment> \<open>\<open>volumeClaimTemplates[0].metadata.name\<close>\<close>
  "postgres_claim_name = ''postgres-data''"

section \<open>Templates of the backend chart\<close>

definition range_env :: "(string \<times> string) list \<Rightarrow> env_var list" where
  \<comment> \<open>\<open>range $key, $value := .Values.env\<close> visits a map in key order.\<close>
  "range_env env = map (\<lambda>(k, x). (k, Value x)) (sort_key fst env)"

definition wait_for_postgres :: "string \<Rightarrow> init_container" where
  "wait_for_postgres rel =
     \<lparr>ic_name = ''wait-for-postgres'',
      ic_image = ''busybox:1.36'',
      ic_script = Until (NcZ (rel @ ''-postgres'') 5432)
                    [Echo ''Waiting for postgres...'', Sleep 2]\<rparr>"

definition backend_db_env_elided :: "string \<Rightarrow> env_var list" where
  \<comment> \<open>Modelled from the spec: the bindings that the listing of \<open>deployment.yaml\<close> cuts off
      after \<open>DB_NAME\<close> with "# ... etc". The chart's README names them (\<open>DB_USER\<close>,
      \<open>DB_PASSWORD\<close>, "from secret"), and the spec has every secret-sourced value as a
      reference to the secret's handle.\<close>
  "backend_db_env_elided rel =
     [(''DB_USER'', SecretKeyRef (rel @ ''-postgres-secret'') ''username''),
      (''DB_PASSWORD'', SecretKeyRef (rel @ ''-postgres-secret'') ''password'')]"

definition backend_env :: "string \<Rightarrow> backend_values \<Rightarrow> env_var list" where
  "backend_env rel v =
     range_env (b_env v) @
     (if pg_enabled (b_postgres v)
      then [(''DB_HOST'', Value (rel @ ''-postgres'')),
            (''DB_NAME'', SecretKeyRef (rel @ ''-postgres-secret'') ''database'')]
           @ backend_db_env_elided rel
      else [])"

definition backend_deployment :: "string \<Rightarrow> backend_values \<Rightarrow> deployment" where
  "backend_deployment rel v =
     \<lparr>d_name = backend_fullname rel v,
      d_replicas = Some (b_replicaCount v),
      d_initContainers = [wait_for_postgres rel],
      d_container =
        \<lparr>c_name = chart_name backend_chart,
         c_image = b_image_repository v @ '':'' @ b_image_tag v,
         c_imagePullPolicy = Some (b_image_pullPolicy v),
         c_containerPort = b_service_port v,
         c_env = backend_env rel v\<rparr>\<rparr>"

definition backend_service :: "string \<Rightarrow> backend_values \<Rightarrow> service" where
  "backend_service rel v =
     \<lparr>s_name = backend_fullname rel v,
      s_type = b_service_type v,
      s_port = b_service_port v,
      s_headless = False\<rparr>"

definition postgres_secret :: "string \<Rightarrow> backend_values \<Rightarrow> secret" where
  "postgres_secret rel v =
     \<lparr>sec_name = rel @ ''-postgres-secret'',
      sec_data =
        [(''username'', b64enc (auth_username (pg_auth (b_postgres v)))),
         (''password'', b64enc (auth_password (pg_auth (b_postgres v)))),
         (''database'', b64enc (auth_database (pg_auth (b_postgres v))))]\<rparr>"

definition postgres_statefulset :: "string \<Rightarrow> backend_values \<Rightarrow> statefulset" where
  "postgres_statefulset rel v =
     \<lparr>ss_name = rel @ ''-postgres'',
      ss_serviceName = rel @ ''-postgres'',
      ss_replicas = 1,
      ss_container =
        \<lparr>c_name = ''postgres'',
         c_image = pg_image_repository (b_postgres v) @ '':'' @ pg_image_tag (b_postgres v),
         c_imagePullPolicy = None,
         c_containerPort = 5432,
         c_env =
           [(''POSTGRES_USER'', SecretKeyRef (rel @ ''-postgres-secret'') ''username''),
            (''POSTGRES_PASSWORD'', SecretKeyRef (rel @ ''-postgres-secret'') ''password''),
            (''POSTGRES_DB'', SecretKeyRef (rel @ ''-postgres-secret'') ''database''),
            (''PGDATA'', Value ''/var/lib/postgresql/data/pgdata'')]\<rparr>,
      ss_probe_command =  \<comment> \<open>liveness and readiness probe run the same command\<close>
        [''/bin/sh'', ''-c'',
         ''exec pg_isready -U '' @ auth_username (pg_auth (b_postgres v)) @ '' -h 127.0.0.1''],
      ss_claim_name = ''postgres-data'',
      ss_claim_storage = pg_persistence_size (b_postgres v)\<rparr>"

definition postgres_service :: "string \<Rightarrow> service" where
  "postgres_service rel =
     \<lparr>s_name = rel @ ''-postgres'',
      s_type = ''ClusterIP'',
      s_port = 5432,
      s_headless = True\<rparr>"

definition backend_templates :: "string \<Rightarrow> backend_values \<Rightarrow> manifest list" where
  \<comment> \<open>The three postgres templates are wrapped in \<open>if .Values.postgres.enabled\<close>.\<close>
  "backend_templates rel v =
     [Deployment (backend_deployment rel v), Service (backend_service rel v)] @
     (if pg_enabled (b_postgres v)
      then [Secret (postgres_secret rel v), StatefulSet (postgres_statefulset rel v),
            Service (postgres_service rel)]
      else [])"

section \<open>Templates of the frontend chart\<close>

definition frontend_deployment ::
  "('p \<Rightarrow> 64 word) \<Rightarrow> string \<Rightarrow> 'p frontend_values \<Rightarrow> deployment" where
  "frontend_deployment sprig_int rel v =
     \<lparr>d_name = frontend_fullname rel v,
      d_replicas = (if \<not> f_autoscaling_enabled v then Some (f_replicaCount v) else None),
      d_initContainers = [],
      d_container =
        \<lparr>c_name = chart_name frontend_chart,
         c_image = f_image_repository v @ '':'' @
                   default_str (chart_appVersion frontend_chart) (f_image_tag v),
         c_imagePullPolicy = Some (f_image_pullPolicy v),
         c_containerPort = f_service_port v,
         c_env = range_env (f_env v)
                 @ [(''BACKEND_URL'', Value (frontend_backendUrl sprig_int v))]\<rparr>\<rparr>"

definition frontend_service :: "string \<Rightarrow> 'p frontend_values \<Rightarrow> service" where
  "frontend_service rel v =
     \<lparr>s_name = frontend_fullname rel v,
      s_type = f_service_type v,
      s_port = f_service_port v,
      s_headless = False\<rparr>"

definition frontend_templates ::
  "('p \<Rightarrow> 64 word) \<Rightarrow> string \<Rightarrow> 'p frontend_values \<Rightarrow> manifest list" where
  "frontend_templates sprig_int rel v =
     [Deployment (frontend_deployment sprig_int rel v), Service (frontend_service rel v)]"

section \<open>A release: one chart installed under a release name\<close>

datatype 'p install =
    BackendChart string backend_values
  | FrontendChart string "'p frontend_values"

fun depends_on :: "'p install \<Rightarrow> string list" where
  \<comment> \<open>The components a release is wired to: the backend to its database (the init
      container probes it whatever the values say, and \<open>DB_HOST\<close> names it under
      \<open>postgres.enabled\<close>), the frontend to the backend release of \<open>backend.releaseName\<close>
      (unless \<open>backend.customUrl\<close> replaces it).\<close>
  "depends_on (BackendChart rel v) = [rel @ ''-postgres'']"
| "depends_on (FrontendChart rel v) =
     (if is_set (ref_customUrl (f_backend v)) then [] else [ref_releaseName (f_backend v)])"

fun service_names :: "manifest list \<Rightarrow> string list" where
  "service_names [] = []"
| "service_names (Service s # ms) = s_name s # service_names ms"
| "service_names (_ # ms) = service_names ms"

fun probe_target :: "init_container \<Rightarrow> (string \<times> nat) option" where
  \<comment> \<open>Host and port of the \<open>nc -z\<close> an init container loops on, if it loops on one.\<close>
  "probe_target ic =
     (case ic_script ic of
        Until (NcZ h p) body \<Rightarrow> Some (h, p)
      | Until _ body \<Rightarrow> None)"

definition gate_hosts :: "deployment \<Rightarrow> string list" where
  \<comment> \<open>The hosts a workload waits for before its main container starts.\<close>
  "gate_hosts d = map fst (List.map_filter probe_target (d_initContainers d))"

fun workload :: "('p \<Rightarrow> 64 word) \<Rightarrow> 'p install \<Rightarrow> deployment" where
  "workload sprig_int (BackendChart rel v) = backend_deployment rel v"
| "workload sprig_int (FrontendChart rel v) = frontend_deployment sprig_int rel v"

section \<open>Running the startup gate\<close>

text \<open>
  The init container runs \<open>until nc -z HOST PORT; do echo MSG; sleep N; done\<close>. Whether
  the probe connects is outside the script: \<open>reach k h p\<close> says whether the \<open>k\<close>-th attempt
  to connect to \<open>h:p\<close> succeeds. A run is given a number of iterations it may take; it
  returns what the loop printed and slept, and whether the loop was left (\<open>True\<close>) or is
  still going round (\<open>False\<close>). The main container starts only once the loop is left.
\<close>

datatype event = Printed string | Slept nat

fun cmd_succeeds :: "(nat \<Rightarrow> string \<Rightarrow> nat \<Rightarrow> bool) \<Rightarrow> nat \<Rightarrow> shell_cmd \<Rightarrow> bool" where
  "cmd_succeeds reach k (NcZ h p) = reach k h p"
| "cmd_succeeds reach k (Echo m) = True"
| "cmd_succeeds reach k (Sleep n) = True"

fun body_events :: "shell_cmd list \<Rightarrow> event list" where
  "body_events [] = []"
| "body_events (Echo m # cs) = Printed m # body_events cs"
| "body_events (Sleep n # cs) = Slept n # body_events cs"
| "body_events (NcZ h p # cs) = body_events cs"

fun run_until ::
  "(nat \<Rightarrow> string \<Rightarrow> nat \<Rightarrow> bool) \<Rightarrow> shell_script \<Rightarrow> nat \<Rightarrow> nat \<Rightarrow> event list \<times> bool" where
  "run_until reach (Until c body) k 0 = ([], False)"
| "run_until reach (Until c body) k (Suc fuel) =
     (if cmd_succeeds reach k c then ([], True)
      else (case run_until reach (Until c body) (Suc k) fuel of
              (es, left) \<Rightarrow> (body_events body @ es, left)))"

definition run_gate :: "(nat \<Rightarrow> string \<Rightarrow> nat \<Rightarrow> bool) \<Rightarrow> init_container \<Rightarrow> nat \<Rightarrow> event list \<times> bool" where
  "run_gate reach ic fuel = run_until reach (ic_script ic) 0 fuel"

section \<open>Syntax of a name\<close>



section \<open>The default values\<close>

definition backend_defaults :: backend_values where
  "backend_defaults =
     \<lparr>b_nameOverride = [], b_fullnameOverride = [], b_replicaCount = 1,
      b_image_repository = ''backend-app'', b_image_tag = ''latest'',
      b_image_pullPolicy = ''IfNotPresent'',
      b_service_type = ''ClusterIP'', b_service_port = 8000,
      b_env = [(''PYTHONUNBUFFERED'', ''1'')],
      b_postgres =
        \<lparr>pg_enabled = True, pg_image_repository = ''postgres'', pg_image_tag = ''15-alpine'',
         pg_auth = \<lparr>auth_database = ''appdb'', auth_username = ''appuser'',
                    auth_password = ''supersecret''\<rparr>,
         pg_persistence_size = ''1Gi''\<rparr>\<rparr>"

definition int64_int :: "64 word \<Rightarrow> 64 word" where
  \<comment> \<open>The coercion \<open>int\<close> on a value that is an int64 already (a port given with
      \<open>--set backend.port=...\<close>): the value itself.\<close>
  "int64_int w = w"

definition frontend_defaults :: "64 word frontend_values" where
  \<comment> \<open>The port is held as an int64.\<close>
  "frontend_defaults =
     \<lparr>f_nameOverride = [], f_fullnameOverride = [], f_replicaCount = 1,
      f_autoscaling_enabled = False,
      f_image_repository = ''frontend-app'', f_image_tag = ''latest'',
      f_image_pullPolicy = ''IfNotPresent'',
      f_service_type = ''ClusterIP'', f_service_port = 3000,
      f_env = [(''NODE_ENV'', ''production'')],
      f_backend = \<lparr>ref_releaseName = ''my-backend'', ref_port = 8000, ref_customUrl = None\<rparr>\<rparr>"

definition backend_without_db :: backend_values where
  \<comment> \<open>\<open>postgres.enabled: false\<close>, as in the README's "Using External PostgreSQL".\<close>
  "backend_without_db =
     backend_defaults\<lparr>b_postgres := (b_postgres backend_defaults)\<lparr>pg_enabled := False\<rparr>\<rparr>"

definition frontend_custom :: "64 word frontend_values" where
  \<comment> \<open>\<open>backend.customUrl\<close> set, as in the plan's "External service" example.\<close>
  "frontend_custom =
     frontend_defaults\<lparr>f_backend := \<lparr>ref_releaseName = ''my-backend'', ref_port = 8000,
                                      ref_customUrl = Some ''https://api.example.com''\<rparr>\<rparr>"

definition backend_override :: backend_values where
  \<comment> \<open>\<open>--set fullnameOverride=r1-postgres\<close>, for a release named \<open>r1\<close>.\<close>
  "backend_override = backend_defaults\<lparr>b_fullnameOverride := ''r1-postgres''\<rparr>"

definition frontend_https :: "64 word frontend_values" where
  \<comment> \<open>Another backend release and another port.\<close>
  "frontend_https =
     frontend_defaults\<lparr>f_backend := \<lparr>ref_releaseName = ''api'', ref_port = 443,
                                      ref_customUrl = None\<rparr>\<rparr>"

section \<open>A component name with two hyphens in a row\<close>


section \<open>The env block as text\<close>




section \<open>Rendering the frontend chart\<close>

text \<open>
  FRONTEND-DEPLOYMENT-PLAN.md lists the templates of the frontend chart in full:
  \<open>_helpers.tpl\<close>, \<open>deployment.yaml\<close>, \<open>service.yaml\<close>, \<open>serviceaccount.yaml\<close> and
  \<open>NOTES.txt\<close> (tasks 3 to 6 and 8). \<open>ingress.yaml\<close>, \<open>hpa.yaml\<close> and \<open>httproute.yaml\<close>
  are copies of the backend's, which are not listed: what they render is an argument,
  \<open>None\<close> when one of them stops with an error.

  The templates read the values document by paths such as \<open>.Values.backend.releaseName\<close>.
  The document is \<open>values.yaml\<close> with the user's values laid over it; a section the user
  sets to null is gone from it, and reading a field of a section that is gone stops the
  rendering with an error. The sections read this way by the listed templates are
  \<open>autoscaling\<close>, \<open>image\<close>, \<open>service\<close>, \<open>serviceAccount\<close> and \<open>backend\<close>. The fields
  themselves have the types \<open>values.yaml\<close> gives them. \<open>NOTES.txt\<close> reads the same sections
  and renders no resource. Which message the error carries is not modelled.
\<close>

record image_values =
  img_repository :: string
  img_tag :: string
  img_pullPolicy :: string

record service_values =
  sv_type :: string
  sv_port :: int

record service_account_values =
  sa_create :: bool
  sa_automount :: bool
  sa_name :: string

record 'p frontend_document =
  fd_nameOverride :: string
  fd_fullnameOverride :: string
  fd_replicaCount :: int
  fd_env :: "(string \<times> string) list"
  fd_autoscaling :: "bool option"  \<comment> \<open>\<open>autoscaling.enabled\<close>\<close>
  fd_image :: "image_values option"
  fd_service :: "service_values option"
  fd_serviceAccount :: "service_account_values option"
  fd_backend :: "'p backend_ref option"

datatype template_error = TemplateError

record service_account =
  acc_name :: string
  acc_automount :: bool

datatype resource =
    Listed manifest
  | ServiceAccount service_account
  | Optional string string  \<comment> \<open>kind and name\<close>

definition frontend_sections ::
  "'p frontend_document \<Rightarrow> ('p frontend_values \<times> service_account_values) option" where
  "frontend_sections d =
     (case fd_autoscaling d of None \<Rightarrow> None | Some a \<Rightarrow>
      case fd_image d of None \<Rightarrow> None | Some i \<Rightarrow>
      case fd_service d of None \<Rightarrow> None | Some s \<Rightarrow>
      case fd_serviceAccount d of None \<Rightarrow> None | Some sa \<Rightarrow>
      case fd_backend d of None \<Rightarrow> None | Some b \<Rightarrow>
        Some (\<lparr>f_nameOverride = fd_nameOverride d, f_fullnameOverride = fd_fullnameOverride d,
               f_replicaCount = fd_replicaCount d, f_autoscaling_enabled = a,
               f_image_repository = img_repository i, f_image_tag = img_tag i,
               f_image_pullPolicy = img_pullPolicy i,
               f_service_type = sv_type s, f_service_port = sv_port s,
               f_env = fd_env d, f_backend = b\<rparr>, sa))"

definition frontend_serviceAccountName ::
  "string \<Rightarrow> 'p frontend_values \<Rightarrow> service_account_values \<Rightarrow> string" where
  "frontend_serviceAccountName rel v sa =
     (if sa_create sa then default_str (frontend_fullname rel v) (sa_name sa)
      else default_str ''default'' (sa_name sa))"

definition frontend_serviceaccount ::
  "string \<Rightarrow> 'p frontend_values \<Rightarrow> service_account_values \<Rightarrow> service_account list" where
  "frontend_serviceaccount rel v sa =
     (if sa_create sa
      then [\<lparr>acc_name = frontend_serviceAccountName rel v sa, acc_automount = sa_automount sa\<rparr>]
      else [])"

definition helm_template_frontend ::
  "('p \<Rightarrow> 64 word) \<Rightarrow> resource list option \<Rightarrow> string \<Rightarrow> 'p frontend_document
     \<Rightarrow> template_error + resource list" where
  "helm_template_frontend sprig_int optional rel d =
     (case frontend_sections d of
        None \<Rightarrow> Inl TemplateError
      | Some (v, sa) \<Rightarrow>
          (case optional of
             None \<Rightarrow> Inl TemplateError
           | Some rs \<Rightarrow>
               Inr (map Listed (frontend_templates sprig_int rel v)
                    @ map ServiceAccount (frontend_serviceaccount rel v sa)
                    @ rs)))"

fun service_name_of :: "resource \<Rightarrow> string option" where
  "service_name_of (Listed (Service s)) = Some (s_name s)"
| "service_name_of (Listed _) = None"
| "service_name_of (ServiceAccount a) = None"
| "service_name_of (Optional k n) = (if k = ''Service'' then Some n else None)"

definition rendered_services :: "resource list \<Rightarrow> string list" where
  "rendered_services rs = List.map_filter service_name_of rs"

definition frontend_document_defaults :: "64 word frontend_document" where
  \<comment> \<open>\<open>values.yaml\<close> of the frontend chart; the port is held as an int64.\<close>
  "frontend_document_defaults =
     \<lparr>fd_nameOverride = [], fd_fullnameOverride = [], fd_replicaCount = 1,
      fd_env = [(''NODE_ENV'', ''production'')],
      fd_autoscaling = Some False,
      fd_image = Some \<lparr>img_repository = ''frontend-app'', img_tag = ''latest'',
                       img_pullPolicy = ''IfNotPresent''\<rparr>,
      fd_service = Some \<lparr>sv_type = ''ClusterIP'', sv_port = 3000\<rparr>,
      fd_serviceAccount = Some \<lparr>sa_create = True, sa_automount = True, sa_name = []\<rparr>,
      fd_backend = Some \<lparr>ref_releaseName = ''my-backend'', ref_port = 8000,
                          ref_customUrl = None\<rparr>\<rparr>"

definition frontend_document_dangling :: "64 word frontend_document" where
  \<comment> \<open>\<open>--set backend.releaseName=no-such-backend\<close>, the way \<open>deploy-local.sh\<close> passes
      its third argument.\<close>
  "frontend_document_dangling =
     frontend_document_defaults
       \<lparr>fd_backend := Some \<lparr>ref_releaseName = ''no-such-backend'', ref_port = 8000,
                             ref_customUrl = None\<rparr>\<rparr>"

section \<open>Facts about the template functions\<close>

lemma string_of_int_8000: "string_of_int 8000 = ''8000''"
  by (simp add: string_of_int_def string_of_nat.simps digit_char_def)

lemma string_of_int_443: "string_of_int 443 = ''443''"
  by (simp add: string_of_int_def string_of_nat.simps digit_char_def)

lemma digit_value_digit_char: "d < 10 \<Longrightarrow> digit_value (digit_char d) = Some d"
proof -
  assume "d < 10"
  then have "d = 0 \<or> d = 1 \<or> d = 2 \<or> d = 3 \<or> d = 4 \<or> d = 5 \<or> d = 6 \<or> d = 7 \<or> d = 8 \<or> d = 9"
    by arith
  then show ?thesis
    by (elim disjE) (simp_all add: digit_value_def digit_char_def less_eq_char_def)
qed

lemma digit_char_zero: "d < 10 \<Longrightarrow> digit_char d = CHR ''0'' \<Longrightarrow> d = 0"
proof -
  assume d: "d < 10" and z: "digit_char d = CHR ''0''"
  from d have "digit_value (digit_char d) = Some d"
    by (rule digit_value_digit_char)
  with z have "digit_value (CHR ''0'') = Some d" by simp
  moreover have "digit_value (CHR ''0'') = Some 0"
    by (simp add: digit_value_def)
  ultimately show ?thesis by simp
qed

lemma digit_char_not_minus: "digit_char d \<noteq> CHR ''-''"
proof -
  have "digit_char d \<in> set ''0123456789''"
    unfolding digit_char_def by (rule nth_mem) simp
  then show ?thesis by auto
qed

lemma nat_of_digits_snoc:
  "nat_of_digits acc (s @ [c]) =
     (case nat_of_digits acc s of
        None \<Rightarrow> None
      | Some a \<Rightarrow> (case digit_value c of None \<Rightarrow> None | Some d \<Rightarrow> Some (10 * a + d)))"
  by (induction s arbitrary: acc) (auto split: option.splits)

lemma string_of_nat_not_Nil: "string_of_nat n \<noteq> []"
  by (subst string_of_nat.simps) simp

lemma nat_of_digits_string_of_nat: "nat_of_digits 0 (string_of_nat n) = Some n"
proof (induction n rule: string_of_nat.induct)
  case (1 n)
  show ?case
  proof (cases "n < 10")
    case True
    then show ?thesis
      by (subst string_of_nat.simps) (simp add: digit_value_digit_char)
  next
    case False
    with 1 have ih: "nat_of_digits 0 (string_of_nat (n div 10)) = Some (n div 10)"
      by simp
    have "n mod 10 < 10" by simp
    then have d: "digit_value (digit_char (n mod 10)) = Some (n mod 10)"
      by (rule digit_value_digit_char)
    from False show ?thesis
      by (subst string_of_nat.simps) (simp add: nat_of_digits_snoc ih d)
  qed
qed

lemma hd_string_of_nat: "hd (string_of_nat n) = CHR ''0'' \<Longrightarrow> n = 0"
proof (induction n rule: string_of_nat.induct)
  case (1 n)
  show ?case
  proof (cases "n < 10")
    case True
    with "1.prems" have "digit_char n = CHR ''0''"
      by (subst (asm) string_of_nat.simps) simp
    with True show ?thesis by (simp add: digit_char_zero)
  next
    case False
    with "1.prems" have "hd (string_of_nat (n div 10)) = CHR ''0''"
      by (subst (asm) string_of_nat.simps) (simp add: string_of_nat_not_Nil)
    with 1 False have "n div 10 = 0" by simp
    with False show ?thesis by simp
  qed
qed

lemma hd_string_of_nat_not_minus: "hd (string_of_nat n) \<noteq> CHR ''-''"
proof (induction n rule: string_of_nat.induct)
  case (1 n)
  show ?case
  proof (cases "n < 10")
    case True
    then show ?thesis
      by (subst string_of_nat.simps) (simp add: digit_char_not_minus)
  next
    case False
    with 1 show ?thesis
      by (subst string_of_nat.simps) (simp add: string_of_nat_not_Nil)
  qed
qed

lemma string_of_nat_0: "string_of_nat 0 = ''0''"
  by (simp add: string_of_nat.simps digit_char_def)

lemma nat_of_decimal_string_of_nat: "nat_of_decimal (string_of_nat n) = Some n"
proof (cases "string_of_nat n")
  case Nil
  then show ?thesis by (simp add: string_of_nat_not_Nil)
next
  case (Cons c cs)
  have "cs = []" if "c = CHR ''0''"
  proof -
    from that Cons have "hd (string_of_nat n) = CHR ''0''" by simp
    then have "n = 0" by (rule hd_string_of_nat)
    with Cons show ?thesis by (simp add: string_of_nat_0)
  qed
  with Cons nat_of_digits_string_of_nat [of n] show ?thesis
    by (auto simp: nat_of_decimal_def)
qed

lemma int_of_decimal_string_of_int: "int_of_decimal (string_of_int i) = Some i"
proof (cases "i < 0")
  case True
  then show ?thesis
    by (simp add: int_of_decimal_def string_of_int_def nat_of_decimal_string_of_nat)
next
  case False
  obtain c cs where s: "string_of_nat (nat i) = c # cs"
    using string_of_nat_not_Nil [of "nat i"] by (cases "string_of_nat (nat i)") auto
  then have "c \<noteq> CHR ''-''"
    using hd_string_of_nat_not_minus [of "nat i"] by simp
  with False s nat_of_decimal_string_of_nat [of "nat i"] show ?thesis
    by (simp add: int_of_decimal_def string_of_int_def)
qed

lemma sint_int64_8000: "sint (int64_int 8000) = 8000"
  by (simp add: int64_int_def)

lemma sint_int64_443: "sint (int64_int 443) = 443"
  by (simp add: int64_int_def)

section \<open>The wait loop\<close>

lemma run_until_blocked:
  "(\<And>j. \<not> cmd_succeeds reach (k + j) c) \<Longrightarrow>
   run_until reach (Until c body) k n = (concat (replicate n (body_events body)), False)"
proof (induction n arbitrary: k)
  case 0
  then show ?case by simp
next
  case (Suc n)
  have now: "\<not> cmd_succeeds reach k c"
    using Suc.prems [of 0] by simp
  have later: "\<And>j. \<not> cmd_succeeds reach (Suc k + j) c"
    using Suc.prems [of "Suc j" for j] by simp
  show ?case
    using now Suc.IH [OF later] by simp
qed

lemma run_until_released:
  "(\<And>j. j < m \<Longrightarrow> \<not> cmd_succeeds reach (k + j) c) \<Longrightarrow> cmd_succeeds reach (k + m) c \<Longrightarrow>
   m < n \<Longrightarrow>
   run_until reach (Until c body) k n = (concat (replicate m (body_events body)), True)"
proof (induction m arbitrary: k n)
  case 0
  then obtain n' where "n = Suc n'" by (cases n) auto
  with 0 show ?case by simp
next
  case (Suc m)
  then obtain n' where n: "n = Suc n'" and mn: "m < n'" by (cases n) auto
  have now: "\<not> cmd_succeeds reach k c"
    using Suc.prems(1) [of 0] by simp
  have later: "\<And>j. j < m \<Longrightarrow> \<not> cmd_succeeds reach (Suc k + j) c"
    using Suc.prems(1) [of "Suc j" for j] by simp
  have hit: "cmd_succeeds reach (Suc k + m) c"
    using Suc.prems(2) by simp
  show ?case
    using now Suc.IH [OF later hit mn] n by simp
qed

lemma wait_loop_blocked:
  assumes "\<And>k. \<not> reach k (rel @ ''-postgres'') 5432"
  shows "run_gate reach (wait_for_postgres rel) n =
           (concat (replicate n [Printed ''Waiting for postgres...'', Slept 2]), False)"
proof -
  have "\<And>j. \<not> cmd_succeeds reach (0 + j) (NcZ (rel @ ''-postgres'') 5432)"
    using assms by simp
  from run_until_blocked [OF this]
  show ?thesis by (simp add: run_gate_def wait_for_postgres_def)
qed

lemma wait_loop_released:
  assumes "\<And>j. j < m \<Longrightarrow> \<not> reach j (rel @ ''-postgres'') 5432"
    and "reach m (rel @ ''-postgres'') 5432" and "m < n"
  shows "run_gate reach (wait_for_postgres rel) n =
           (concat (replicate m [Printed ''Waiting for postgres...'', Slept 2]), True)"
proof -
  have a: "\<And>j. j < m \<Longrightarrow> \<not> cmd_succeeds reach (0 + j) (NcZ (rel @ ''-postgres'') 5432)"
    using assms(1) by simp
  have b: "cmd_succeeds reach (0 + m) (NcZ (rel @ ''-postgres'') 5432)"
    using assms(2) by simp
  from run_until_released [OF a b assms(3)]
  show ?thesis by (simp add: run_gate_def wait_for_postgres_def)
qed

section \<open>The startup gate of the backend\<close>

text \<open>
  Claim C8. For every release name and every values document, also with
  \<open>postgres.enabled = false\<close>, the rendered backend Deployment has the init container
  \<open>wait-for-postgres\<close>, which probes \<open><release>-postgres\<close> on port 5432. With postgres
  disabled the chart renders the Deployment and its Service only (no postgres Service,
  Secret or StatefulSet), and if nothing ever answers on \<open><release>-postgres:5432\<close> the
  gate is never left, however long it runs.
\<close>

theorem startup_gate_unconditional:
  "Deployment (backend_deployment rel v) \<in> set (backend_templates rel v)
   \<and> d_initContainers (backend_deployment rel v) = [wait_for_postgres rel]
   \<and> ic_name (wait_for_postgres rel) = ''wait-for-postgres''
   \<and> probe_target (wait_for_postgres rel) = Some (rel @ ''-postgres'', 5432)
   \<and> (\<not> pg_enabled (b_postgres v) \<longrightarrow>
        backend_templates rel v
          = [Deployment (backend_deployment rel v), Service (backend_service rel v)])
   \<and> ((\<forall>k. \<not> reach k (rel @ ''-postgres'') 5432) \<longrightarrow>
        (\<forall>n. snd (run_gate reach (wait_for_postgres rel) n) = False))"
proof -
  have "(\<forall>k. \<not> reach k (rel @ ''-postgres'') 5432) \<longrightarrow>
        (\<forall>n. snd (run_gate reach (wait_for_postgres rel) n) = False)"
    using wait_loop_blocked [of reach rel] by simp
  then show ?thesis
    by (simp add: backend_templates_def backend_deployment_def wait_for_postgres_def)
qed

theorem startup_gate_unconditional_witness:
  "\<not> pg_enabled (b_postgres backend_without_db)
   \<and> backend_templates ''r1'' backend_without_db
       = [Deployment (backend_deployment ''r1'' backend_without_db),
          Service (backend_service ''r1'' backend_without_db)]
   \<and> d_initContainers (backend_deployment ''r1'' backend_without_db) = [wait_for_postgres ''r1'']
   \<and> snd (run_gate (\<lambda>k h p. False) (wait_for_postgres ''r1'') 1000) = False"
  using startup_gate_unconditional [of "''r1''" backend_without_db "\<lambda>k h p. False"]
  by (simp add: backend_without_db_def backend_defaults_def)

section \<open>The backend URL of the frontend\<close>

text \<open>
  Claim C10. In the frontend chart the last environment entry of the workload is
  \<open>BACKEND_URL\<close>. When \<open>backend.customUrl\<close> is set (present and not empty, the test the
  template makes), its value is \<open>customUrl\<close> verbatim, whatever \<open>backend.releaseName\<close> and
  \<open>backend.port\<close> are; when it is not set, the value is \<open>http://\<close>, then
  \<open>backend.releaseName\<close>, a colon and the decimal numeral of the integer that the
  coercion \<open>int\<close> makes of \<open>backend.port\<close>. The numeral is the canonical one: read back,
  it gives that integer.
\<close>

theorem backend_url_custom_or_derived:
  "(ref_customUrl (f_backend v) = Some u \<and> u \<noteq> [] \<longrightarrow>
      last (c_env (d_container (frontend_deployment sprig_int rel v))) = (''BACKEND_URL'', Value u))
   \<and> (\<not> is_set (ref_customUrl (f_backend v)) \<longrightarrow>
      last (c_env (d_container (frontend_deployment sprig_int rel v))) =
        (''BACKEND_URL'',
         Value (''http://'' @ ref_releaseName (f_backend v) @ '':''
                  @ string_of_int (sint (sprig_int (ref_port (f_backend v)))))))
   \<and> int_of_decimal (string_of_int (sint (sprig_int (ref_port (f_backend v)))))
        = Some (sint (sprig_int (ref_port (f_backend v))))"
  by (auto simp: frontend_deployment_def frontend_backendUrl_def is_set_def
      int_of_decimal_string_of_int split: option.splits)

theorem backend_url_custom_or_derived_witness:
  "ref_customUrl (f_backend frontend_custom) = Some ''https://api.example.com''
   \<and> last (c_env (d_container (frontend_deployment int64_int ''my-frontend'' frontend_custom))) =
       (''BACKEND_URL'', Value ''https://api.example.com'')
   \<and> \<not> is_set (ref_customUrl (f_backend frontend_defaults))
   \<and> last (c_env (d_container (frontend_deployment int64_int ''my-frontend'' frontend_defaults))) =
       (''BACKEND_URL'', Value ''http://my-backend:8000'')
   \<and> \<not> is_set (ref_customUrl (f_backend frontend_https))
   \<and> last (c_env (d_container (frontend_deployment int64_int ''my-frontend'' frontend_https))) =
       (''BACKEND_URL'', Value ''http://api:443'')
   \<and> int_of_decimal ''443'' = Some 443"
  using backend_url_custom_or_derived
          [of frontend_custom "''https://api.example.com''" int64_int "''my-frontend''"]
        backend_url_custom_or_derived [of frontend_defaults "[]" int64_int "''my-frontend''"]
        backend_url_custom_or_derived [of frontend_https "[]" int64_int "''my-frontend''"]
  by (simp add: frontend_custom_def frontend_defaults_def frontend_https_def is_set_def
      sint_int64_8000 sint_int64_443 string_of_int_8000 string_of_int_443)

section \<open>The Secret\<close>

lemma b64_alphabet_distinct: "distinct b64_alphabet"
  by (simp add: b64_alphabet_def)

lemma b64_alphabet_length: "length b64_alphabet = 64"
  by (simp add: b64_alphabet_def)

lemma index_of_nth: "distinct xs \<Longrightarrow> n < length xs \<Longrightarrow> index_of (xs ! n) xs = Some n"
proof (induction xs arbitrary: n)
  case Nil
  then show ?case by simp
next
  case (Cons y ys)
  show ?case
  proof (cases n)
    case 0
    then show ?thesis by simp
  next
    case (Suc m)
    with Cons.prems have "m < length ys" "ys ! m \<noteq> y" "distinct ys" by auto
    with Cons.IH[of m] Suc show ?thesis by simp
  qed
qed

lemma b64_index_char: "n < 64 \<Longrightarrow> b64_index (b64_char n) = Some n"
  unfolding b64_index_def b64_char_def
  using index_of_nth[OF b64_alphabet_distinct, of n] by (simp add: b64_alphabet_length)

lemma b64_char_not_pad: "b64_char n \<noteq> CHR ''=''"
proof -
  have "b64_char n \<in> set b64_alphabet"
    unfolding b64_char_def by (rule nth_mem) (simp add: b64_alphabet_length)
  moreover have "CHR ''='' \<notin> set b64_alphabet"
    by (simp add: b64_alphabet_def)
  ultimately show ?thesis by metis
qed

lemma sextet_bounds:
  fixes a b c :: nat
  assumes "a < 256" "b < 256" "c < 256"
  shows "a div 4 < 64" "(a mod 4) * 16 < 64" "(a mod 4) * 16 + b div 16 < 64"
    "(b mod 16) * 4 < 64" "(b mod 16) * 4 + c div 64 < 64" "c mod 64 < 64"
  using assms by arith+

lemma first_byte_one:
  fixes a :: nat
  shows "a div 4 * 4 + ((a mod 4) * 16) div 16 = a"
  by simp

lemma first_byte:
  fixes a b :: nat
  assumes "b < 256"
  shows "a div 4 * 4 + ((a mod 4) * 16 + b div 16) div 16 = a"
proof -
  have "b div 16 < 16" using assms by arith
  then have "((a mod 4) * 16 + b div 16) div 16 = a mod 4" by simp
  then show ?thesis by simp
qed

lemma second_byte_two:
  fixes a b :: nat
  assumes "b < 256"
  shows "(((a mod 4) * 16 + b div 16) mod 16) * 16 + ((b mod 16) * 4) div 4 = b"
proof -
  have "b div 16 < 16" using assms by arith
  then have "((a mod 4) * 16 + b div 16) mod 16 = b div 16" by simp
  then show ?thesis by simp
qed

lemma second_byte:
  fixes a b c :: nat
  assumes "b < 256" "c < 256"
  shows "(((a mod 4) * 16 + b div 16) mod 16) * 16 + ((b mod 16) * 4 + c div 64) div 4 = b"
proof -
  have "b div 16 < 16" using assms by arith
  then have hi: "((a mod 4) * 16 + b div 16) mod 16 = b div 16" by simp
  have "c div 64 < 4" using assms by arith
  then have lo: "((b mod 16) * 4 + c div 64) div 4 = b mod 16" by simp
  show ?thesis unfolding hi lo by simp
qed

lemma third_byte:
  fixes b c :: nat
  assumes "c < 256"
  shows "(((b mod 16) * 4 + c div 64) mod 4) * 64 + c mod 64 = c"
proof -
  have "c div 64 < 4" using assms by arith
  then have hi: "((b mod 16) * 4 + c div 64) mod 4 = c div 64" by simp
  show ?thesis unfolding hi by simp
qed

lemma b64dec_enc_bytes:
  "\<forall>b \<in> set bs. b < 256 \<Longrightarrow> b64dec_bytes (b64enc_bytes bs) = Some bs"
proof (induction bs rule: b64enc_bytes.induct)
  case 1
  then show ?case by simp
next
  case (2 a)
  then have a: "a < 256" by simp
  show ?case
    using sextet_bounds(1,2)[OF a a a] first_byte_one[of a]
    by (simp add: b64_index_char b64_char_not_pad)
next
  case (3 a b)
  then have a: "a < 256" and b: "b < 256" by simp_all
  show ?case
    using sextet_bounds(1,3,4)[OF a b b] first_byte[OF b, of a] second_byte_two[OF b, of a]
    by (simp add: b64_index_char b64_char_not_pad)
next
  case (4 a b c rest)
  then have a: "a < 256" and b: "b < 256" and c: "c < 256" by simp_all
  have ih: "b64dec_bytes (b64enc_bytes rest) = Some rest"
    using 4 by simp
  show ?case
    using sextet_bounds(1,3,5,6)[OF a b c] first_byte[OF b, of a] second_byte[OF b c, of a]
      third_byte[OF c, of b] ih
    by (simp add: b64_index_char b64_char_not_pad)
qed

lemma b64dec_b64enc: "b64dec (b64enc s) = Some s"
proof -
  have "\<forall>b \<in> set (map of_char s :: nat list). b < 256" by simp
  then show ?thesis
    unfolding b64dec_def b64enc_def by (simp add: b64dec_enc_bytes)
qed

lemma b64enc_documented:
  "b64enc ''appuser'' = ''YXBwdXNlcg=='' \<and> b64enc ''supersecret'' = ''c3VwZXJzZWNyZXQ=''
   \<and> b64enc ''appdb'' = ''YXBwZGI=''"
  by (simp add: b64enc_def b64_char_def b64_alphabet_def)

lemma b64dec_documented:
  "b64dec ''YXBwdXNlcg=='' = Some ''appuser''"
  "b64dec ''c3VwZXJzZWNyZXQ='' = Some ''supersecret''"
  "b64dec ''YXBwZGI='' = Some ''appdb''"
  using b64dec_b64enc [of "''appuser''"] b64dec_b64enc [of "''supersecret''"]
    b64dec_b64enc [of "''appdb''"] b64enc_documented
  by simp_all


text \<open>
  Claim C9. For every credential bundle of the values document, the Secret (rendered when
  postgres is enabled) stores \<open>username\<close>, \<open>password\<close> and \<open>database\<close> as the base64
  encoding of the configured literal, and decoding each stored field gives the literal
  back, byte for byte.
\<close>

theorem secret_fields_base64:
  "(pg_enabled (b_postgres v) \<longrightarrow> Secret (postgres_secret rel v) \<in> set (backend_templates rel v))
   \<and> sec_data (postgres_secret rel v) =
       [(''username'', b64enc (auth_username (pg_auth (b_postgres v)))),
        (''password'', b64enc (auth_password (pg_auth (b_postgres v)))),
        (''database'', b64enc (auth_database (pg_auth (b_postgres v))))]
   \<and> map (\<lambda>(k, x). (k, b64dec x)) (sec_data (postgres_secret rel v)) =
       [(''username'', Some (auth_username (pg_auth (b_postgres v)))),
        (''password'', Some (auth_password (pg_auth (b_postgres v)))),
        (''database'', Some (auth_database (pg_auth (b_postgres v))))]"
  by (simp add: backend_templates_def postgres_secret_def b64dec_b64enc)

theorem secret_fields_base64_witness:
  "pg_enabled (b_postgres backend_defaults)
   \<and> Secret (postgres_secret ''my-backend'' backend_defaults)
        \<in> set (backend_templates ''my-backend'' backend_defaults)
   \<and> sec_data (postgres_secret ''my-backend'' backend_defaults) =
       [(''username'', ''YXBwdXNlcg==''), (''password'', ''c3VwZXJzZWNyZXQ=''),
        (''database'', ''YXBwZGI='')]
   \<and> map (\<lambda>(k, x). (k, b64dec x)) (sec_data (postgres_secret ''my-backend'' backend_defaults)) =
       [(''username'', Some ''appuser''), (''password'', Some ''supersecret''),
        (''database'', Some ''appdb'')]"
proof -
  have en: "pg_enabled (b_postgres backend_defaults)"
    by (simp add: backend_defaults_def)
  have auth: "auth_username (pg_auth (b_postgres backend_defaults)) = ''appuser''"
    "auth_password (pg_auth (b_postgres backend_defaults)) = ''supersecret''"
    "auth_database (pg_auth (b_postgres backend_defaults)) = ''appdb''"
    by (simp_all add: backend_defaults_def)
  show ?thesis
    using secret_fields_base64 [of backend_defaults "''my-backend''"] en
    by (simp add: auth b64enc_documented b64dec_documented)
qed

section \<open>Names\<close>

lemma trimSuffix_cases: "trimSuffix suf s = s \<or> s = trimSuffix suf s @ suf"
  by (auto simp: trimSuffix_def suffix_def)

lemma length_trimSuffix: "length (trimSuffix suf s) \<le> length s"
  by (simp add: trimSuffix_def)






lemma take_short: "take n s = t \<Longrightarrow> length t < n \<Longrightarrow> s = t"
proof -
  assume a: "take n s = t" and b: "length t < n"
  have "length (take n s) < n" using a b by simp
  then have "length s < n" by simp
  then have "take n s = s" by simp
  with a show "s = t" by simp
qed

lemma trim_trunc_claim:
  assumes "trimSuffix ''-'' (trunc 63 s) = ''postgres-data''"
  shows "s = ''postgres-data'' \<or> s = ''postgres-data-''"
proof -
  from trimSuffix_cases [of "''-''" "trunc 63 s"] assms
  have "trunc 63 s = ''postgres-data'' \<or> trunc 63 s = ''postgres-data-''"
    by auto
  then show ?thesis
  proof
    assume "trunc 63 s = ''postgres-data''"
    then have "s = ''postgres-data''"
      unfolding trunc_def by (rule take_short) simp
    then show ?thesis by simp
  next
    assume "trunc 63 s = ''postgres-data-''"
    then have "s = ''postgres-data-''"
      unfolding trunc_def by (rule take_short) simp
    then show ?thesis by simp
  qed
qed

lemma last_neq: "last xs \<noteq> last ys \<Longrightarrow> xs \<noteq> ys"
  by auto

lemma backend_suffix_not_claim:
  "rel @ ''-backend'' \<noteq> ''postgres-data''" "rel @ ''-backend'' \<noteq> ''postgres-data-''"
  by (rule last_neq, simp)+

lemma backend_fullname_not_claim:
  "chart_fullname backend_chart [] [] rel \<noteq> ''postgres-data''"
proof
  assume eq: "chart_fullname backend_chart [] [] rel = ''postgres-data''"
  show False
  proof (cases "contains ''backend'' rel")
    case True
    with eq have "trimSuffix ''-'' (trunc 63 rel) = ''postgres-data''"
      by (simp add: chart_fullname_def backend_chart_def default_str_def)
    then have "rel = ''postgres-data'' \<or> rel = ''postgres-data-''"
      by (rule trim_trunc_claim)
    with True show False by auto
  next
    case False
    with eq have "trimSuffix ''-'' (trunc 63 (rel @ ''-backend'')) = ''postgres-data''"
      by (simp add: chart_fullname_def backend_chart_def default_str_def)
    then have "rel @ ''-backend'' = ''postgres-data'' \<or> rel @ ''-backend'' = ''postgres-data-''"
      by (rule trim_trunc_claim)
    then show False
      using backend_suffix_not_claim [of rel] by blast
  qed
qed

lemma length_backend_fullname:
  "length (chart_fullname backend_chart [] [] rel) \<le> length rel + 8"
proof -
  have a: "length (trimSuffix ''-'' (trunc 63 rel)) \<le> length rel"
    using length_trimSuffix [of "''-''" "trunc 63 rel"] by (simp add: trunc_def)
  have b: "length (trimSuffix ''-'' (trunc 63 (rel @ ''-backend''))) \<le> length rel + 8"
    using length_trimSuffix [of "''-''" "trunc 63 (rel @ ''-backend'')"] by (simp add: trunc_def)
  show ?thesis
    using a b by (simp add: chart_fullname_def backend_chart_def default_str_def Let_def)
qed


















text \<open>
  Claim C5, as amended. When neither \<open>nameOverride\<close> nor \<open>fullnameOverride\<close> is set, the
  backend's Service name, the database's Service name, its Secret name and its
  storage-claim name are four different strings, for every release name; this holds for
  \<open>backend.fullname\<close> in both forms the documents print.
\<close>

theorem names_distinct_without_overrides:
  assumes "b_nameOverride v = []" and "b_fullnameOverride v = []"
  shows "distinct [backend_fullname rel v, postgres_service_name rel, postgres_secret_name rel,
                   postgres_claim_name]
         \<and> distinct [backend_fullname_walkthrough (b_fullnameOverride v) rel,
                     postgres_service_name rel, postgres_secret_name rel, postgres_claim_name]"
proof -
  have f: "backend_fullname rel v = chart_fullname backend_chart [] [] rel"
    using assms by (simp add: backend_fullname_def)
  have w: "backend_fullname_walkthrough (b_fullnameOverride v) rel = rel @ ''-backend''"
    using assms by (simp add: backend_fullname_walkthrough_def backend_chart_def)
  have len: "length (chart_fullname backend_chart [] [] rel) \<le> length rel + 8"
    by (rule length_backend_fullname)
  have f1: "chart_fullname backend_chart [] [] rel \<noteq> postgres_service_name rel"
  proof
    assume "chart_fullname backend_chart [] [] rel = postgres_service_name rel"
    then have "length (chart_fullname backend_chart [] [] rel) = length rel + 9"
      by (simp add: postgres_service_name_def)
    with len show False by simp
  qed
  have f2: "chart_fullname backend_chart [] [] rel \<noteq> postgres_secret_name rel"
  proof
    assume "chart_fullname backend_chart [] [] rel = postgres_secret_name rel"
    then have "length (chart_fullname backend_chart [] [] rel) = length rel + 16"
      by (simp add: postgres_secret_name_def)
    with len show False by simp
  qed
  have f3: "chart_fullname backend_chart [] [] rel \<noteq> postgres_claim_name"
    using backend_fullname_not_claim [of rel] by (simp add: postgres_claim_name_def)
  have p1: "postgres_service_name rel \<noteq> postgres_secret_name rel"
    by (simp add: postgres_service_name_def postgres_secret_name_def)
  have p2: "postgres_service_name rel \<noteq> postgres_claim_name"
    unfolding postgres_service_name_def postgres_claim_name_def
    by (rule last_neq) simp
  have p3: "postgres_secret_name rel \<noteq> postgres_claim_name"
    unfolding postgres_secret_name_def postgres_claim_name_def
    by (rule last_neq) simp
  have w1: "rel @ ''-backend'' \<noteq> postgres_service_name rel"
    "rel @ ''-backend'' \<noteq> postgres_secret_name rel"
    by (simp_all add: postgres_service_name_def postgres_secret_name_def)
  have w3: "rel @ ''-backend'' \<noteq> postgres_claim_name"
    unfolding postgres_claim_name_def by (rule last_neq) simp
  show ?thesis
    using f1 f2 f3 p1 p2 p3 w1 w3 by (simp add: f w)
qed

theorem names_distinct_without_overrides_witness:
  "b_nameOverride backend_defaults = [] \<and> b_fullnameOverride backend_defaults = []
   \<and> distinct [backend_fullname ''my-backend'' backend_defaults,
               postgres_service_name ''my-backend'', postgres_secret_name ''my-backend'',
               postgres_claim_name]"
proof -
  have o: "b_nameOverride backend_defaults = []" "b_fullnameOverride backend_defaults = []"
    by (simp_all add: backend_defaults_def)
  show ?thesis
    using names_distinct_without_overrides [OF o, of "''my-backend''"] o by simp
qed

text \<open>
  Claim C5 as the spec states it fails: with \<open>fullnameOverride\<close> set to \<open>r1-postgres\<close> in
  release \<open>r1\<close>, the chart renders two different Services under the one name
  \<open>r1-postgres\<close>.
\<close>

theorem fullname_override_counterexample:
  "s_name (backend_service ''r1'' backend_override) = s_name (postgres_service ''r1'')
   \<and> Service (backend_service ''r1'' backend_override) \<in> set (backend_templates ''r1'' backend_override)
   \<and> Service (postgres_service ''r1'') \<in> set (backend_templates ''r1'' backend_override)
   \<and> backend_service ''r1'' backend_override \<noteq> postgres_service ''r1''
   \<and> backend_fullname ''r1'' backend_override = postgres_service_name ''r1''"
  by (simp add: backend_service_def postgres_service_def backend_templates_def backend_override_def
      backend_defaults_def backend_fullname_def chart_fullname_def trunc_def trimSuffix_def
      suffix_to_prefix postgres_service_name_def)


section \<open>Environment of the backend\<close>

lemma length_range_env: "length (range_env env) = length env"
  by (simp add: range_env_def)

lemma frontend_fullname_default: 
  "frontend_fullname ''my-frontend'' frontend_defaults = ''my-frontend''"
  by (simp add: frontend_fullname_def chart_fullname_def frontend_defaults_def frontend_chart_def
      default_str_def trunc_def trimSuffix_def suffix_to_prefix)


text \<open>
  Claim C6. For every release with postgres enabled, the environment of the backend
  workload ends, after the entries of \<open>env\<close>, with \<open>DB_HOST\<close> bound to the literal
  \<open><release>-postgres\<close> and with \<open>DB_NAME\<close>, \<open>DB_USER\<close> and \<open>DB_PASSWORD\<close> bound to the keys
  \<open>database\<close>, \<open>username\<close> and \<open>password\<close> of the secret \<open><release>-postgres-secret\<close>. The
  chart renders a Service of that host name on port 5432 and a Secret of that name. The
  workload descriptor is the same whatever the configured credentials are: no
  credential, the password included, reaches it.
\<close>

theorem backend_database_bindings:
  assumes "pg_enabled (b_postgres v)"
  shows "drop (length (b_env v)) (c_env (d_container (backend_deployment rel v))) =
           [(''DB_HOST'', Value (rel @ ''-postgres'')),
            (''DB_NAME'', SecretKeyRef (rel @ ''-postgres-secret'') ''database''),
            (''DB_USER'', SecretKeyRef (rel @ ''-postgres-secret'') ''username''),
            (''DB_PASSWORD'', SecretKeyRef (rel @ ''-postgres-secret'') ''password'')]
         \<and> Service (postgres_service rel) \<in> set (backend_templates rel v)
         \<and> s_name (postgres_service rel) = rel @ ''-postgres''
         \<and> s_port (postgres_service rel) = 5432
         \<and> Secret (postgres_secret rel v) \<in> set (backend_templates rel v)
         \<and> sec_name (postgres_secret rel v) = rel @ ''-postgres-secret''
         \<and> backend_deployment rel (v\<lparr>b_postgres := (b_postgres v)\<lparr>pg_auth := a\<rparr>\<rparr>)
             = backend_deployment rel v"
  using assms
  by (simp add: backend_deployment_def backend_env_def backend_db_env_elided_def
      length_range_env backend_templates_def postgres_service_def postgres_secret_def
      backend_fullname_def)

theorem backend_database_bindings_witness:
  "pg_enabled (b_postgres backend_defaults)
   \<and> c_env (d_container (backend_deployment ''r1'' backend_defaults)) =
       [(''PYTHONUNBUFFERED'', Value ''1''),
        (''DB_HOST'', Value ''r1-postgres''),
        (''DB_NAME'', SecretKeyRef ''r1-postgres-secret'' ''database''),
        (''DB_USER'', SecretKeyRef ''r1-postgres-secret'' ''username''),
        (''DB_PASSWORD'', SecretKeyRef ''r1-postgres-secret'' ''password'')]
   \<and> backend_deployment ''r1''
        (backend_defaults\<lparr>b_postgres := (b_postgres backend_defaults)
           \<lparr>pg_auth := \<lparr>auth_database = ''appdb'', auth_username = ''u'', auth_password = ''p''\<rparr>\<rparr>\<rparr>)
       = backend_deployment ''r1'' backend_defaults"
proof -
  have en: "pg_enabled (b_postgres backend_defaults)"
    by (simp add: backend_defaults_def)
  have env: "c_env (d_container (backend_deployment ''r1'' backend_defaults)) =
      (''PYTHONUNBUFFERED'', Value ''1'')
        # drop (length (b_env backend_defaults))
            (c_env (d_container (backend_deployment ''r1'' backend_defaults)))"
    by (simp add: backend_deployment_def backend_env_def backend_defaults_def range_env_def)
  show ?thesis
    using backend_database_bindings [OF en, of "''r1''"
        "\<lparr>auth_database = ''appdb'', auth_username = ''u'', auth_password = ''p''\<rparr>"] en env
    by simp
qed


section \<open>Startup gates\<close>

text \<open>
  Claim C3, as amended. The backend workload has a startup gate for the database it is
  wired to: one init container that probes \<open><release>-postgres\<close>, the name of the
  database's Service, on that Service's port 5432. While no attempt connects, the gate is
  not left, however long it runs, and every failed attempt prints
  \<open>Waiting for postgres...\<close> and then sleeps 2 seconds; when the first attempt to connect
  is attempt \<open>m\<close>, the gate is left after exactly \<open>m\<close> such rounds. The frontend workload
  has no init container, hence no gate for the backend it is wired to.
\<close>

theorem readiness_gate_backend_only:
  "set (depends_on (BackendChart rel v))
      \<subseteq> set (gate_hosts (workload sprig_int (BackendChart rel v)))
   \<and> map probe_target (d_initContainers (backend_deployment rel v))
        = [Some (rel @ ''-postgres'', 5432)]
   \<and> s_name (postgres_service rel) = rel @ ''-postgres'' \<and> s_port (postgres_service rel) = 5432
   \<and> ((\<forall>k. \<not> reach k (rel @ ''-postgres'') 5432) \<longrightarrow>
        (\<forall>n. run_gate reach (wait_for_postgres rel) n =
               (concat (replicate n [Printed ''Waiting for postgres...'', Slept 2]), False)))
   \<and> ((\<forall>j<m. \<not> reach j (rel @ ''-postgres'') 5432) \<and> reach m (rel @ ''-postgres'') 5432 \<and> m < n
        \<longrightarrow> run_gate reach (wait_for_postgres rel) n =
               (concat (replicate m [Printed ''Waiting for postgres...'', Slept 2]), True))
   \<and> d_initContainers (frontend_deployment sprig_int rel' fv) = []
   \<and> gate_hosts (workload sprig_int (FrontendChart rel' fv)) = []"
proof -
  have blocked: "(\<forall>k. \<not> reach k (rel @ ''-postgres'') 5432) \<longrightarrow>
        (\<forall>n. run_gate reach (wait_for_postgres rel) n =
               (concat (replicate n [Printed ''Waiting for postgres...'', Slept 2]), False))"
    using wait_loop_blocked [of reach rel] by blast
  have released: "(\<forall>j<m. \<not> reach j (rel @ ''-postgres'') 5432) \<and> reach m (rel @ ''-postgres'') 5432
        \<and> m < n
        \<longrightarrow> run_gate reach (wait_for_postgres rel) n =
               (concat (replicate m [Printed ''Waiting for postgres...'', Slept 2]), True)"
    using wait_loop_released [of m reach rel n] by blast
  have covered: "set (depends_on (BackendChart rel v))
      \<subseteq> set (gate_hosts (workload sprig_int (BackendChart rel v)))"
    by (auto simp: gate_hosts_def backend_deployment_def wait_for_postgres_def)
  have shape: "map probe_target (d_initContainers (backend_deployment rel v))
       = [Some (rel @ ''-postgres'', 5432)]"
    "s_name (postgres_service rel) = rel @ ''-postgres''" "s_port (postgres_service rel) = 5432"
    "d_initContainers (frontend_deployment sprig_int rel' fv) = []"
    "gate_hosts (workload sprig_int (FrontendChart rel' fv)) = []"
    by (simp_all add: gate_hosts_def backend_deployment_def wait_for_postgres_def
        postgres_service_def frontend_deployment_def)
  show ?thesis
    using blocked released covered shape by blast
qed

theorem readiness_gate_backend_only_witness:
  "run_gate (\<lambda>k h p. False) (wait_for_postgres ''r1'') 2 =
       ([Printed ''Waiting for postgres...'', Slept 2, Printed ''Waiting for postgres...'', Slept 2],
        False)
   \<and> \<not> (\<lambda>k h p. 1 \<le> k) (0::nat) (''r1'' @ ''-postgres'') (5432::nat)
   \<and> (\<lambda>k h p. 1 \<le> k) (1::nat) (''r1'' @ ''-postgres'') (5432::nat)
   \<and> run_gate (\<lambda>k h p. 1 \<le> k) (wait_for_postgres ''r1'') 5 =
       ([Printed ''Waiting for postgres...'', Slept 2], True)"
proof -
  have twice: "concat (replicate 2 xs) = xs @ xs" for xs :: "event list"
    by (simp add: numeral_2_eq_2)
  have blocked: "run_gate (\<lambda>k h p. False) (wait_for_postgres ''r1'') 2 =
      ([Printed ''Waiting for postgres...'', Slept 2, Printed ''Waiting for postgres...'', Slept 2],
       False)"
    using readiness_gate_backend_only [of "''r1''" backend_defaults int64_int "\<lambda>k h p. False" 0 2]
    by (simp add: twice)
  have released: "run_gate (\<lambda>k h p. 1 \<le> k) (wait_for_postgres ''r1'') 5 =
      ([Printed ''Waiting for postgres...'', Slept 2], True)"
    using readiness_gate_backend_only [of "''r1''" backend_defaults int64_int "\<lambda>k h p. 1 \<le> k" 1 5]
    by simp
  show ?thesis
    using blocked released by auto
qed


text \<open>
  Claim C3 as the spec states it fails: the frontend with its default values depends on
  \<open>my-backend\<close> and its workload waits for nothing.
\<close>

theorem frontend_gate_counterexample:
  "''my-backend'' \<in> set (depends_on (FrontendChart ''my-frontend'' frontend_defaults))
   \<and> ''my-backend''
        \<notin> set (gate_hosts (workload int64_int (FrontendChart ''my-frontend'' frontend_defaults)))
   \<and> d_initContainers (frontend_deployment int64_int ''my-frontend'' frontend_defaults) = []"
  by (simp add: frontend_defaults_def is_set_def gate_hosts_def frontend_deployment_def)


section \<open>Order of the environment\<close>











section \<open>A backend that is not there\<close>

lemma frontend_sections_None:
  "frontend_sections d = None \<longleftrightarrow>
     fd_autoscaling d = None \<or> fd_image d = None \<or> fd_service d = None
     \<or> fd_serviceAccount d = None \<or> fd_backend d = None"
  by (simp add: frontend_sections_def split: option.splits)

lemma frontend_sections_Some:
  "frontend_sections d = Some (v, sa) \<Longrightarrow>
     fd_serviceAccount d = Some sa \<and> fd_backend d = Some (f_backend v)
     \<and> f_nameOverride v = fd_nameOverride d \<and> f_fullnameOverride v = fd_fullnameOverride d"
  by (auto simp: frontend_sections_def split: option.splits)

lemma rendered_services_append:
  "rendered_services (xs @ ys) = rendered_services xs @ rendered_services ys"
  by (simp add: rendered_services_def List.map_filter_def)

lemma rendered_services_accounts:
  "rendered_services (map ServiceAccount as) = []"
  by (induction as) (simp_all add: rendered_services_def List.map_filter_def)

lemma rendered_services_templates:
  "rendered_services (map Listed (frontend_templates sprig_int rel v)) = [frontend_fullname rel v]"
  by (simp add: rendered_services_def List.map_filter_def frontend_templates_def
      frontend_service_def)

lemma backend_url_derived:
  "\<not> is_set (ref_customUrl (f_backend v)) \<Longrightarrow>
     frontend_backendUrl sprig_int v
       = ''http://'' @ ref_releaseName (f_backend v) @ '':''
           @ string_of_int (sint (sprig_int (ref_port (f_backend v))))"
  by (simp add: frontend_backendUrl_def is_set_def split: option.splits)

text \<open>
  Claim C1, as amended. Rendering the frontend chart does not look up the backend it is
  wired to. It stops with an error exactly when a template reads a field of a section
  that the values document lacks (\<open>autoscaling\<close>, \<open>image\<close>, \<open>service\<close>, \<open>serviceAccount\<close>,
  \<open>backend\<close>) or when one of the optional templates stops. Whenever it returns resources
  for a document with a \<open>backend\<close> section, the Services among them are the frontend's own
  and those of the optional templates; the Deployment is among them, without init
  container, and with \<open>customUrl\<close> unset its \<open>BACKEND_URL\<close> is
  \<open>http://<backend.releaseName>:<backend.port>\<close>. So a \<open>backend.releaseName\<close> that is
  neither the frontend's own name nor a Service of the optional templates names no
  Service of the release, and the release is rendered all the same. The listed templates
  of the backend chart do the same for the database: with postgres disabled and no name
  override, the Deployment still waits for \<open><release>-postgres\<close> and no Service of that
  name is among the resources they render.
\<close>

theorem unknown_backend_rendered:
  "(isl (helm_template_frontend sprig_int optional rel d) \<longleftrightarrow>
      fd_autoscaling d = None \<or> fd_image d = None \<or> fd_service d = None
      \<or> fd_serviceAccount d = None \<or> fd_backend d = None \<or> optional = None)
   \<and> (helm_template_frontend sprig_int optional rel d = Inr out
        \<and> fd_backend d = Some b \<and> optional = Some rs \<longrightarrow>
        rendered_services out
          = chart_fullname frontend_chart (fd_nameOverride d) (fd_fullnameOverride d) rel
            # rendered_services rs
        \<and> (\<exists>dep. Listed (Deployment dep) \<in> set out \<and> d_initContainers dep = []
              \<and> (\<not> is_set (ref_customUrl b) \<longrightarrow>
                   (''BACKEND_URL'',
                    Value (''http://'' @ ref_releaseName b @ '':''
                           @ string_of_int (sint (sprig_int (ref_port b)))))
                   \<in> set (c_env (d_container dep))))
        \<and> (ref_releaseName b
              \<noteq> chart_fullname frontend_chart (fd_nameOverride d) (fd_fullnameOverride d) rel
            \<and> ref_releaseName b \<notin> set (rendered_services rs) \<longrightarrow>
            ref_releaseName b \<notin> set (rendered_services out)))
   \<and> (\<not> pg_enabled (b_postgres bv) \<and> b_nameOverride bv = [] \<and> b_fullnameOverride bv = [] \<longrightarrow>
        gate_hosts (backend_deployment rel' bv) = [rel' @ ''-postgres'']
        \<and> rel' @ ''-postgres'' \<notin> set (service_names (backend_templates rel' bv)))"
proof -
  have backend: "gate_hosts (backend_deployment rel' bv) = [rel' @ ''-postgres'']
        \<and> rel' @ ''-postgres'' \<notin> set (service_names (backend_templates rel' bv))"
    if off: "\<not> pg_enabled (b_postgres bv)"
      and plain: "b_nameOverride bv = []" "b_fullnameOverride bv = []"
  proof -
    have "length (backend_fullname rel' bv) \<le> length rel' + 8"
      using length_backend_fullname [of rel'] plain by (simp add: backend_fullname_def)
    then have "backend_fullname rel' bv \<noteq> rel' @ ''-postgres''"
      by auto
    then have "rel' @ ''-postgres'' \<notin> set (service_names (backend_templates rel' bv))"
      using off by (auto simp: backend_templates_def backend_service_def)
    moreover have "gate_hosts (backend_deployment rel' bv) = [rel' @ ''-postgres'']"
      by (simp add: gate_hosts_def backend_deployment_def wait_for_postgres_def
          List.map_filter_def)
    ultimately show ?thesis by simp
  qed
  have fails: "isl (helm_template_frontend sprig_int optional rel d) \<longleftrightarrow>
      fd_autoscaling d = None \<or> fd_image d = None \<or> fd_service d = None
      \<or> fd_serviceAccount d = None \<or> fd_backend d = None \<or> optional = None"
  proof (cases "frontend_sections d")
    case None
    then have "isl (helm_template_frontend sprig_int optional rel d)"
      by (simp add: helm_template_frontend_def)
    moreover from None have "fd_autoscaling d = None \<or> fd_image d = None \<or> fd_service d = None
      \<or> fd_serviceAccount d = None \<or> fd_backend d = None"
      by (simp add: frontend_sections_None)
    ultimately show ?thesis by blast
  next
    case (Some p)
    then have "frontend_sections d \<noteq> None" by simp
    then have present: "\<not> (fd_autoscaling d = None \<or> fd_image d = None \<or> fd_service d = None
      \<or> fd_serviceAccount d = None \<or> fd_backend d = None)"
      by (simp add: frontend_sections_None)
    from Some have "isl (helm_template_frontend sprig_int optional rel d) \<longleftrightarrow> optional = None"
      by (cases p) (simp add: helm_template_frontend_def split: option.splits)
    with present show ?thesis by blast
  qed
  have rendered: "rendered_services out
          = chart_fullname frontend_chart (fd_nameOverride d) (fd_fullnameOverride d) rel
            # rendered_services rs
        \<and> (\<exists>dep. Listed (Deployment dep) \<in> set out \<and> d_initContainers dep = []
              \<and> (\<not> is_set (ref_customUrl b) \<longrightarrow>
                   (''BACKEND_URL'',
                    Value (''http://'' @ ref_releaseName b @ '':''
                           @ string_of_int (sint (sprig_int (ref_port b)))))
                   \<in> set (c_env (d_container dep))))"
    if r: "helm_template_frontend sprig_int optional rel d = Inr out"
      and b: "fd_backend d = Some b" and o: "optional = Some rs"
  proof -
    from r obtain v sa where s: "frontend_sections d = Some (v, sa)"
      by (cases "frontend_sections d") (auto simp: helm_template_frontend_def)
    from frontend_sections_Some [OF s] b have vb: "f_backend v = b"
      and names: "f_nameOverride v = fd_nameOverride d" "f_fullnameOverride v = fd_fullnameOverride d"
      by simp_all
    from r s o have out: "out = map Listed (frontend_templates sprig_int rel v)
        @ map ServiceAccount (frontend_serviceaccount rel v sa) @ rs"
      by (simp add: helm_template_frontend_def)
    have full: "frontend_fullname rel v
        = chart_fullname frontend_chart (fd_nameOverride d) (fd_fullnameOverride d) rel"
      by (simp add: frontend_fullname_def names)
    have svc: "rendered_services out
          = chart_fullname frontend_chart (fd_nameOverride d) (fd_fullnameOverride d) rel
            # rendered_services rs"
      unfolding out
      by (simp add: rendered_services_append rendered_services_accounts
          rendered_services_templates full)
    let ?dep = "frontend_deployment sprig_int rel v"
    have "Listed (Deployment ?dep) \<in> set out"
      unfolding out by (simp add: frontend_templates_def)
    moreover have "d_initContainers ?dep = []"
      by (simp add: frontend_deployment_def)
    moreover have "(''BACKEND_URL'',
                    Value (''http://'' @ ref_releaseName b @ '':''
                           @ string_of_int (sint (sprig_int (ref_port b)))))
                   \<in> set (c_env (d_container ?dep))" if "\<not> is_set (ref_customUrl b)"
      using that backend_url_derived [of v sprig_int]
      by (simp add: frontend_deployment_def vb)
    ultimately show ?thesis using svc by blast
  qed
  show ?thesis
  proof (intro conjI impI)
    show "isl (helm_template_frontend sprig_int optional rel d) \<longleftrightarrow>
      fd_autoscaling d = None \<or> fd_image d = None \<or> fd_service d = None
      \<or> fd_serviceAccount d = None \<or> fd_backend d = None \<or> optional = None"
      by (rule fails)
  next
    assume a: "helm_template_frontend sprig_int optional rel d = Inr out
        \<and> fd_backend d = Some b \<and> optional = Some rs"
    with rendered show "rendered_services out
          = chart_fullname frontend_chart (fd_nameOverride d) (fd_fullnameOverride d) rel
            # rendered_services rs" by blast
    from a rendered show "\<exists>dep. Listed (Deployment dep) \<in> set out \<and> d_initContainers dep = []
              \<and> (\<not> is_set (ref_customUrl b) \<longrightarrow>
                   (''BACKEND_URL'',
                    Value (''http://'' @ ref_releaseName b @ '':''
                           @ string_of_int (sint (sprig_int (ref_port b)))))
                   \<in> set (c_env (d_container dep)))" by blast
    assume "ref_releaseName b
              \<noteq> chart_fullname frontend_chart (fd_nameOverride d) (fd_fullnameOverride d) rel
            \<and> ref_releaseName b \<notin> set (rendered_services rs)"
    moreover from a rendered have "rendered_services out
          = chart_fullname frontend_chart (fd_nameOverride d) (fd_fullnameOverride d) rel
            # rendered_services rs" by blast
    ultimately show "ref_releaseName b \<notin> set (rendered_services out)" by simp
  next
    assume "\<not> pg_enabled (b_postgres bv) \<and> b_nameOverride bv = [] \<and> b_fullnameOverride bv = []"
    with backend show "gate_hosts (backend_deployment rel' bv) = [rel' @ ''-postgres'']"
      and "rel' @ ''-postgres'' \<notin> set (service_names (backend_templates rel' bv))"
      by blast+
  qed
qed

lemma my_frontend_fullname:
  "chart_fullname frontend_chart [] [] ''my-frontend'' = ''my-frontend''"
  by (simp add: chart_fullname_def frontend_chart_def default_str_def trunc_def trimSuffix_def
      suffix_to_prefix)

lemma frontend_chart_fields:
  "chart_name frontend_chart = ''frontend''" "chart_appVersion frontend_chart = ''0.1.0''"
  by (simp_all add: frontend_chart_def)

lemma frontend_document_defaults_rendered:
  "helm_template_frontend int64_int (Some []) ''my-frontend'' frontend_document_defaults
     = Inr [Listed (Deployment
              \<lparr>d_name = ''my-frontend'', d_replicas = Some 1, d_initContainers = [],
               d_container =
                 \<lparr>c_name = ''frontend'', c_image = ''frontend-app:latest'',
                  c_imagePullPolicy = Some ''IfNotPresent'', c_containerPort = 3000,
                  c_env = [(''NODE_ENV'', Value ''production''),
                           (''BACKEND_URL'', Value ''http://my-backend:8000'')]\<rparr>\<rparr>),
            Listed (Service \<lparr>s_name = ''my-frontend'', s_type = ''ClusterIP'', s_port = 3000,
                             s_headless = False\<rparr>),
            ServiceAccount \<lparr>acc_name = ''my-frontend'', acc_automount = True\<rparr>]"
  by (simp add: helm_template_frontend_def frontend_sections_def frontend_document_defaults_def
      frontend_templates_def frontend_deployment_def frontend_service_def
      frontend_serviceaccount_def frontend_serviceAccountName_def frontend_fullname_def
      my_frontend_fullname frontend_chart_fields default_str_def
      range_env_def frontend_backendUrl_def sint_int64_8000 string_of_int_8000)

theorem unknown_backend_rendered_witness:
  "\<not> isl (helm_template_frontend int64_int (Some []) ''my-frontend'' frontend_document_defaults)
   \<and> isl (helm_template_frontend int64_int (Some []) ''my-frontend''
            (frontend_document_defaults\<lparr>fd_backend := None\<rparr>))
   \<and> rendered_services
        (projr (helm_template_frontend int64_int (Some []) ''my-frontend''
                  frontend_document_defaults))
       = [''my-frontend'']
   \<and> ''my-backend''
       \<notin> set (rendered_services
                (projr (helm_template_frontend int64_int (Some []) ''my-frontend''
                          frontend_document_defaults)))
   \<and> gate_hosts (backend_deployment ''r1'' backend_without_db) = [''r1-postgres'']
   \<and> ''r1-postgres'' \<notin> set (service_names (backend_templates ''r1'' backend_without_db))"
proof -
  let ?out = "projr (helm_template_frontend int64_int (Some []) ''my-frontend''
                       frontend_document_defaults)"
  have r: "helm_template_frontend int64_int (Some []) ''my-frontend'' frontend_document_defaults
      = Inr ?out"
    by (simp add: frontend_document_defaults_rendered)
  have b: "fd_backend frontend_document_defaults
      = Some \<lparr>ref_releaseName = ''my-backend'', ref_port = 8000, ref_customUrl = None\<rparr>"
    by (simp add: frontend_document_defaults_def)
  have n: "chart_fullname frontend_chart (fd_nameOverride frontend_document_defaults)
      (fd_fullnameOverride frontend_document_defaults) ''my-frontend'' = ''my-frontend''"
    by (simp add: frontend_document_defaults_def my_frontend_fullname)
  have absent: "isl (helm_template_frontend int64_int (Some []) ''my-frontend''
            (frontend_document_defaults\<lparr>fd_backend := None\<rparr>))"
    using unknown_backend_rendered
      [of int64_int "Some []" "''my-frontend''" "frontend_document_defaults\<lparr>fd_backend := None\<rparr>"]
    by simp
  have present: "\<not> isl (helm_template_frontend int64_int (Some []) ''my-frontend''
      frontend_document_defaults)"
    by (simp add: frontend_document_defaults_rendered)
  have "rendered_services ?out = [''my-frontend'']
      \<and> ''my-backend'' \<notin> set (rendered_services ?out)"
    using unknown_backend_rendered
      [of int64_int "Some []" "''my-frontend''" frontend_document_defaults ?out
          "\<lparr>ref_releaseName = ''my-backend'', ref_port = 8000, ref_customUrl = None\<rparr>" "[]"]
      r b n
    by (simp add: rendered_services_def List.map_filter_def)
  moreover have "gate_hosts (backend_deployment ''r1'' backend_without_db) = [''r1-postgres'']
      \<and> ''r1-postgres'' \<notin> set (service_names (backend_templates ''r1'' backend_without_db))"
    using unknown_backend_rendered
      [of int64_int "Some []" "''my-frontend''" frontend_document_defaults ?out
          "\<lparr>ref_releaseName = ''my-backend'', ref_port = 8000, ref_customUrl = None\<rparr>" "[]"
          backend_without_db "''r1''"]
    by (simp add: backend_without_db_def backend_defaults_def)
  ultimately show ?thesis using absent present by simp
qed

text \<open>
  Claim C1 as the spec states it fails: \<open>deploy-local.sh my-frontend default
  no-such-backend\<close> installs the chart with \<open>--set backend.releaseName=no-such-backend\<close>.
  The chart is rendered in full, Deployment, Service and ServiceAccount, with
  \<open>BACKEND_URL\<close> pointing at the name that no Service has.
\<close>

theorem unknown_dependency_counterexample:
  "helm_template_frontend int64_int (Some []) ''my-frontend'' frontend_document_dangling
     = Inr [Listed (Deployment
              \<lparr>d_name = ''my-frontend'', d_replicas = Some 1, d_initContainers = [],
               d_container =
                 \<lparr>c_name = ''frontend'', c_image = ''frontend-app:latest'',
                  c_imagePullPolicy = Some ''IfNotPresent'', c_containerPort = 3000,
                  c_env = [(''NODE_ENV'', Value ''production''),
                           (''BACKEND_URL'', Value ''http://no-such-backend:8000'')]\<rparr>\<rparr>),
            Listed (Service \<lparr>s_name = ''my-frontend'', s_type = ''ClusterIP'', s_port = 3000,
                             s_headless = False\<rparr>),
            ServiceAccount \<lparr>acc_name = ''my-frontend'', acc_automount = True\<rparr>]"
  by (simp add: helm_template_frontend_def frontend_sections_def frontend_document_dangling_def
      frontend_document_defaults_def
      frontend_templates_def frontend_deployment_def frontend_service_def
      frontend_serviceaccount_def frontend_serviceAccountName_def frontend_fullname_def
      my_frontend_fullname frontend_chart_fields default_str_def
      range_env_def frontend_backendUrl_def sint_int64_8000 string_of_int_8000)

end
